theory Spec2Isabelle
  imports Main "HOL-Library.Word"
begin

unbundle bit_operations_syntax

section \<open>Data model of package ipxedust\<close>

subsection \<open>Library values the configuration is built from\<close>

text \<open>
  \<^verbatim>\<open>netaddr.IP\<close> is a 128-bit address with a zone marker; the marker of the zero
  \<^verbatim>\<open>IP\<close> is nil (\<open>z0\<close>), that of an IPv4 address is \<open>z4\<close>. \<^verbatim>\<open>netaddr.IPPort\<close>
  pairs an \<^verbatim>\<open>IP\<close> with a 16-bit port.
\<close>

datatype ipzone = z0 | z4 | z6noz | z6zone string

record IP =
  ip_addr :: "128 word"
  ip_z :: ipzone

record IPPort =
  ipp_ip :: IP
  ipp_port :: "16 word"

definition IPv4 :: "8 word \<Rightarrow> 8 word \<Rightarrow> 8 word \<Rightarrow> 8 word \<Rightarrow> IP" where
  \<comment> \<open>\<^verbatim>\<open>netaddr.IPv4(a, b, c, d)\<close>: the IPv4-mapped address \<^verbatim>\<open>::ffff:a.b.c.d\<close>, marker \<open>z4\<close>\<close>
  "IPv4 a b c d =
     \<lparr>ip_addr = 0xffff00000000 OR push_bit 24 (ucast a) OR push_bit 16 (ucast b)
                 OR push_bit 8 (ucast c) OR ucast d,
      ip_z = z4\<rparr>"

definition IPPortFrom :: "IP \<Rightarrow> 16 word \<Rightarrow> IPPort" where
  "IPPortFrom i p = \<lparr>ipp_ip = i, ipp_port = p\<rparr>"

definition IPPort_zero :: IPPort where
  \<comment> \<open>the Go zero value \<^verbatim>\<open>netaddr.IPPort{}\<close>\<close>
  "IPPort_zero = \<lparr>ipp_ip = \<lparr>ip_addr = 0, ip_z = z0\<rparr>, ipp_port = 0\<rparr>"

definition IsZero :: "IPPort \<Rightarrow> bool" where
  \<comment> \<open>\<^verbatim>\<open>func (p IPPort) IsZero() bool { return p == IPPort{} }\<close>\<close>
  "IsZero p = (p = IPPort_zero)"

text \<open>
  \<^verbatim>\<open>time.Duration\<close> is a 64-bit count of nanoseconds.
\<close>

type_synonym Duration = "64 word"

definition Second :: Duration where
  "Second = 1000000000"

text \<open>
  \<^verbatim>\<open>logr.Logger\<close> holds a sink (an interface value, nil in the zero \<^verbatim>\<open>Logger\<close>)
  and a verbosity level. \<^verbatim>\<open>GetSink\<close> returns the sink; \<^verbatim>\<open>logr.Discard()\<close> is the
  logger over the discarding sink.
\<close>

datatype LogSink = discardLogSink | userLogSink nat

record Logger =
  sink :: "LogSink option"
  level :: int

definition GetSink :: "Logger \<Rightarrow> LogSink option" where
  "GetSink l = sink l"

definition Discard :: Logger where
  "Discard = \<lparr>sink = Some discardLogSink, level = 0\<rparr>"

subsection \<open>Server and ServerSpec\<close>

record ServerSpec =
  Addr :: IPPort
  Timeout :: Duration
  Disabled :: bool

record Server =
  TFTP :: ServerSpec
  HTTP :: ServerSpec
  Log :: Logger
  EnableTFTPSinglePort :: bool

section \<open>Configuration resolution\<close>

text \<open>
  \<^verbatim>\<open>(*Server).Transformer\<close> returns a merge function for two types and nil for every
  other type. The two closures are modelled as functions from the destination and the
  source to the new destination (\<^verbatim>\<open>dst.CanSet()\<close> holds: the destination is a field
  reached through the pointer \<^verbatim>\<open>c\<close>).
\<close>

definition Transformer_Logger :: "Logger \<Rightarrow> Logger \<Rightarrow> Logger" where
  \<comment> \<open>\<^verbatim>\<open>case reflect.TypeOf(logr.Logger{})\<close>: set when \<^verbatim>\<open>GetSink\<close> is nil\<close>
  "Transformer_Logger dst src = (if GetSink dst = None then src else dst)"

definition Transformer_IPPort :: "IPPort \<Rightarrow> IPPort \<Rightarrow> IPPort" where
  \<comment> \<open>\<^verbatim>\<open>case reflect.TypeOf(netaddr.IPPort{})\<close>: set when \<^verbatim>\<open>IsZero\<close> holds\<close>
  "Transformer_IPPort dst src = (if IsZero dst then src else dst)"

text \<open>
  \<^verbatim>\<open>mergo.Merge(c, defaults, mergo.WithTransformers(c))\<close> walks the fields of the
  destination struct. A value whose type has a transformer is handed to it; a struct
  without one is merged field by field; any other value is set from the source when the
  destination is the zero value of its type and the source is not (mergo without
  overwrite). The call cannot fail here: both arguments are a \<^verbatim>\<open>Server\<close>, the
  destination is a pointer, and both transformers return nil.
\<close>

definition merge_Duration :: "Duration \<Rightarrow> Duration \<Rightarrow> Duration" where
  "merge_Duration dst src = (if dst = 0 \<and> src \<noteq> 0 then src else dst)"

definition merge_bool :: "bool \<Rightarrow> bool \<Rightarrow> bool" where
  "merge_bool dst src = (if \<not> dst \<and> src then src else dst)"

definition merge_ServerSpec :: "ServerSpec \<Rightarrow> ServerSpec \<Rightarrow> ServerSpec" where
  "merge_ServerSpec dst src =
     \<lparr>Addr = Transformer_IPPort (Addr dst) (Addr src),
      Timeout = merge_Duration (Timeout dst) (Timeout src),
      Disabled = merge_bool (Disabled dst) (Disabled src)\<rparr>"

definition Merge :: "Server \<Rightarrow> Server \<Rightarrow> Server" where
  "Merge dst src =
     \<lparr>TFTP = merge_ServerSpec (TFTP dst) (TFTP src),
      HTTP = merge_ServerSpec (HTTP dst) (HTTP src),
      Log = Transformer_Logger (Log dst) (Log src),
      EnableTFTPSinglePort = merge_bool (EnableTFTPSinglePort dst) (EnableTFTPSinglePort src)\<rparr>"

definition ListenAndServe_defaults :: Server where
  \<comment> \<open>the \<^verbatim>\<open>defaults\<close> literal of \<^verbatim>\<open>ListenAndServe\<close>\<close>
  "ListenAndServe_defaults =
     \<lparr>TFTP = \<lparr>Addr = IPPortFrom (IPv4 0 0 0 0) 69, Timeout = 5 * Second, Disabled = False\<rparr>,
      HTTP = \<lparr>Addr = IPPortFrom (IPv4 0 0 0 0) 8080, Timeout = 5 * Second, Disabled = False\<rparr>,
      Log = Discard,
      EnableTFTPSinglePort = False\<rparr>"

definition Serve_defaults :: Server where
  \<comment> \<open>the \<^verbatim>\<open>defaults\<close> literal of \<^verbatim>\<open>Serve\<close>: no addresses, the handles are passed in\<close>
  "Serve_defaults =
     \<lparr>TFTP = \<lparr>Addr = IPPort_zero, Timeout = 5 * Second, Disabled = False\<rparr>,
      HTTP = \<lparr>Addr = IPPort_zero, Timeout = 5 * Second, Disabled = False\<rparr>,
      Log = Discard,
      EnableTFTPSinglePort = False\<rparr>"

definition Server_zero :: Server where
  \<comment> \<open>the Go zero value \<^verbatim>\<open>Server{}\<close>\<close>
  "Server_zero =
     \<lparr>TFTP = \<lparr>Addr = IPPort_zero, Timeout = 0, Disabled = False\<rparr>,
      HTTP = \<lparr>Addr = IPPort_zero, Timeout = 0, Disabled = False\<rparr>,
      Log = \<lparr>sink = None, level = 0\<rparr>,
      EnableTFTPSinglePort = False\<rparr>"

section \<open>Errors, handles and what a call can do\<close>

text \<open>
  Errors that reach this package from outside (\<^verbatim>\<open>net\<close>, \<^verbatim>\<open>net/http\<close>, \<^verbatim>\<open>context\<close>,
  the TFTP engine) are \<open>lib_error\<close>: the two sentinels the code and its caller test for,
  any other error, and an error that wraps another (\<^verbatim>\<open>Unwrap\<close>). The four
  \<^verbatim>\<open>errors.New\<close> values of this package are constructors of \<open>error\<close> of their own:
  each \<^verbatim>\<open>errors.New\<close> call yields a value equal to no other error.
\<close>

datatype lib_error =
    ErrServerClosed
  | Canceled
  | OtherError string
  | Wrapped string lib_error

datatype error =
    tcp_listener_must_not_be_nil
  | udp_conn_must_not_be_nil
  | listener_must_not_be_nil
  | conn_must_not_be_nil
  | Lib lib_error

fun lib_Is :: "lib_error \<Rightarrow> lib_error \<Rightarrow> bool" where
  "lib_Is (Wrapped m e) t = (Wrapped m e = t \<or> lib_Is e t)"
| "lib_Is e t = (e = t)"

fun errors_Is :: "error option \<Rightarrow> error \<Rightarrow> bool" where
  \<comment> \<open>\<^verbatim>\<open>errors.Is(err, target)\<close> for a non-nil target: equality along the \<^verbatim>\<open>Unwrap\<close> chain\<close>
  "errors_Is None t = False"
| "errors_Is (Some (Lib e)) (Lib t) = lib_Is e t"
| "errors_Is (Some e) t = (e = t)"

text \<open>
  A \<^verbatim>\<open>net.Listener\<close> or \<^verbatim>\<open>net.PacketConn\<close> argument is an interface value: nil, or a
  concrete value that is a nil pointer (a typed nil), a non-nil pointer, or a value of
  a kind that has no nil (a struct).
\<close>

datatype iface = nil_iface | typed_nil | live_ptr | live_val

fun reflect_IsNil :: "iface \<Rightarrow> bool option" where
  \<comment> \<open>\<^verbatim>\<open>reflect.ValueOf(x).IsNil()\<close>; \<open>None\<close> is the panic of \<^verbatim>\<open>IsNil\<close> on a kind without nil\<close>
  "reflect_IsNil typed_nil = Some True"
| "reflect_IsNil live_ptr = Some False"
| "reflect_IsNil live_val = None"
| "reflect_IsNil nil_iface = None"

datatype outcome = Returns "error option" | Blocks | Panics

datatype task = tftp_task | http_task

datatype event =
    ResolveUDPAddr
  | ListenUDP
  | NewServer
  | SetTimeout Duration
  | EnableSinglePort
  | LogInfo string
  | GoServe task
  | Sleep Duration
  | CtxDone
  | ConnClose
  | TsShutdown
  | HsShutdown
  | GroupWait

record task_run =
  trace :: "event list"
  outcome :: outcome

text \<open>
  The serve loops \<^verbatim>\<open>itftp.Serve\<close>, \<^verbatim>\<open>ihttp.Serve\<close> and \<^verbatim>\<open>ihttp.ListenAndServe\<close>, the
  resolver and the sockets are outside the files modelled here; what they do in a run is
  a parameter. A loop either returns an error of its own accord, or serves until it is
  shut down and then returns a value.
\<close>

datatype loop = fails lib_error | until_shutdown "lib_error option"

record env =
  ResolveUDPAddr_err :: "lib_error option"
  ListenUDP_err :: "lib_error option"
  itftp_Serve :: loop
  ihttp_Serve :: loop
  hs_Shutdown :: "lib_error option"

fun WithContext_done :: "bool \<Rightarrow> loop \<Rightarrow> bool" where
  \<comment> \<open>\<^verbatim>\<open>errgroup.WithContext(ctx)\<close> with one \<^verbatim>\<open>g.Go(loop)\<close>: the derived context is done
      when the parent is, or when the loop has returned a non-nil error\<close>
  "WithContext_done ctx_done (fails e) = True"
| "WithContext_done ctx_done (until_shutdown r) = ctx_done"

fun Wait :: "loop \<Rightarrow> error option" where
  \<comment> \<open>\<^verbatim>\<open>g.Wait()\<close> of that group, once the loop has been shut down\<close>
  "Wait (fails e) = Some (Lib e)"
| "Wait (until_shutdown r) = map_option Lib r"

section \<open>The serving tasks\<close>

text \<open>
  Each task is modelled by the effects it issues in program order and by how the call
  ends. \<open>ctx_done\<close> says whether the context passed in is ever canceled; a task whose
  \<^verbatim>\<open><-ctx.Done()\<close> never receives blocks, and its trace stops before \<open>CtxDone\<close>.
  Logging and the construction of the HTTP and TFTP servers do not fail, and a serve
  loop returns once its server has been shut down, so that \<^verbatim>\<open>g.Wait()\<close> returns.
\<close>

definition listenAndServeHTTP :: "Server \<Rightarrow> bool \<Rightarrow> env \<Rightarrow> task_run" where
  "listenAndServeHTTP c ctx_done en =
     (let started = [LogInfo ''serving HTTP'', GoServe http_task] in
      if \<not> WithContext_done ctx_done (ihttp_Serve en)
      then \<lparr>trace = started, outcome = Blocks\<rparr>
      else
        (case hs_Shutdown en of
           Some e \<Rightarrow> \<lparr>trace = started @ [CtxDone, HsShutdown], outcome = Returns (Some (Lib e))\<rparr>
         | None \<Rightarrow>
             (let err = Wait (ihttp_Serve en);
                  err = (if errors_Is err (Lib ErrServerClosed) then None else err)
              in \<lparr>trace = started @ [CtxDone, HsShutdown, GroupWait], outcome = Returns err\<rparr>)))"

definition serveHTTP :: "Server \<Rightarrow> bool \<Rightarrow> iface \<Rightarrow> env \<Rightarrow> task_run" where
  "serveHTTP c ctx_done l en =
     (if l = nil_iface then \<lparr>trace = [], outcome = Returns (Some listener_must_not_be_nil)\<rparr>
      else
        (case reflect_IsNil l of
           None \<Rightarrow> \<lparr>trace = [], outcome = Panics\<rparr>
         | Some True \<Rightarrow> \<lparr>trace = [], outcome = Returns (Some listener_must_not_be_nil)\<rparr>
         | Some False \<Rightarrow>
             (let started = [LogInfo ''serving HTTP'', GoServe http_task] in
              if \<not> WithContext_done ctx_done (ihttp_Serve en)
              then \<lparr>trace = started, outcome = Blocks\<rparr>
              else
                (case hs_Shutdown en of
                   Some e \<Rightarrow>
                     \<lparr>trace = started @ [CtxDone, HsShutdown], outcome = Returns (Some (Lib e))\<rparr>
                 | None \<Rightarrow>
                     (let err = Wait (ihttp_Serve en) in
                      if errors_Is err (Lib ErrServerClosed)
                      then \<lparr>trace = started @ [CtxDone, HsShutdown, GroupWait],
                            outcome = Returns None\<rparr>
                      else \<lparr>trace = started @ [CtxDone, HsShutdown, GroupWait],
                            outcome = Returns err\<rparr>)))))"

definition listenAndServeTFTP :: "Server \<Rightarrow> bool \<Rightarrow> env \<Rightarrow> task_run" where
  "listenAndServeTFTP c ctx_done en =
     (case ResolveUDPAddr_err en of
        Some e \<Rightarrow> \<lparr>trace = [ResolveUDPAddr], outcome = Returns (Some (Lib e))\<rparr>
      | None \<Rightarrow>
          (case ListenUDP_err en of
             Some e \<Rightarrow> \<lparr>trace = [ResolveUDPAddr, ListenUDP], outcome = Returns (Some (Lib e))\<rparr>
           | None \<Rightarrow>
               (let started =
                      [ResolveUDPAddr, ListenUDP, NewServer, SetTimeout (Timeout (TFTP c))]
                      @ (if EnableTFTPSinglePort c then [EnableSinglePort] else [])
                      @ [LogInfo ''serving TFTP'', GoServe tftp_task, Sleep Second]
                in if \<not> WithContext_done ctx_done (itftp_Serve en)
                   then \<lparr>trace = started, outcome = Blocks\<rparr>
                   else \<lparr>trace = started @ [CtxDone, ConnClose, TsShutdown, GroupWait],
                         outcome = Returns (Wait (itftp_Serve en))\<rparr>)))"

definition serveTFTP :: "Server \<Rightarrow> bool \<Rightarrow> iface \<Rightarrow> env \<Rightarrow> task_run" where
  "serveTFTP c ctx_done conn en =
     (if conn = nil_iface then \<lparr>trace = [], outcome = Returns (Some conn_must_not_be_nil)\<rparr>
      else
        (case reflect_IsNil conn of
           None \<Rightarrow> \<lparr>trace = [], outcome = Panics\<rparr>
         | Some True \<Rightarrow> \<lparr>trace = [], outcome = Returns (Some conn_must_not_be_nil)\<rparr>
         | Some False \<Rightarrow>
             (let started =
                    [NewServer, SetTimeout (Timeout (TFTP c))]
                    @ (if EnableTFTPSinglePort c then [EnableSinglePort] else [])
                    @ [LogInfo ''serving TFTP'', GoServe tftp_task, Sleep Second]
              in if \<not> WithContext_done ctx_done (itftp_Serve en)
                 then \<lparr>trace = started, outcome = Blocks\<rparr>
                 else \<lparr>trace = started @ [CtxDone, ConnClose, TsShutdown, GroupWait],
                       outcome = Returns (Wait (itftp_Serve en))\<rparr>)))"

subsection \<open>Time\<close>

text \<open>
  A task issues its effects one after the other. Effect \<open>i\<close> is issued \<open>delay i\<close>
  nanoseconds after the one before it has completed (scheduling, or the time a receive
  blocks: \<open>0\<close> for \<^verbatim>\<open><-ctx.Done()\<close> on a context that is already canceled), and
  \<^verbatim>\<open>time.Sleep(d)\<close> completes no earlier than \<open>d\<close> after it was issued. \<open>stamp\<close> gives
  each effect of a trace the time at which it is issued.
\<close>

fun min_duration :: "event \<Rightarrow> nat" where
  "min_duration (Sleep d) = (if 0 < sint d then nat (sint d) else 0)"
| "min_duration e = 0"

fun stamp :: "nat \<Rightarrow> (nat \<Rightarrow> nat) \<Rightarrow> nat \<Rightarrow> event list \<Rightarrow> (nat \<times> event) list" where
  "stamp now delay i [] = []"
| "stamp now delay i (e # es) =
     (now + delay i, e) # stamp (now + delay i + min_duration e) delay (Suc i) es"

section \<open>The orchestrator\<close>

text \<open>
  \<^verbatim>\<open>ListenAndServe\<close> and \<^verbatim>\<open>Serve\<close> run their tasks under
  \<^verbatim>\<open>g, ctx := errgroup.WithContext(ctx)\<close>. By the contract of \<^verbatim>\<open>errgroup\<close>, the derived
  context is canceled when the caller's context is, or as soon as a function passed to
  \<^verbatim>\<open>g.Go\<close> returns a non-nil error; \<^verbatim>\<open>g.Wait()\<close> blocks until every such function has
  returned and then returns the first non-nil error that one of them returned, in the
  order in which they returned. A panic in a goroutine ends the process.

  The model does not follow the interleaving of the goroutines; it takes this contract
  as given. \<open>ctx_done\<close> says whether the caller's context is ever canceled,
  \<open>http_first\<close> whether the HTTP task returns before the TFTP task. A task is given as
  a function of whether its context is ever canceled; the group's context is done when
  the caller's is, or when a task returns an error without having been canceled. The
  orchestrator blocks at \<^verbatim>\<open><-ctx.Done()\<close> while the group's context is not done, and at
  \<^verbatim>\<open>g.Wait()\<close> while a task has not returned.
\<close>

fun is_error :: "outcome \<Rightarrow> bool" where
  "is_error (Returns (Some e)) = True"
| "is_error r = False"

fun first_error :: "outcome list \<Rightarrow> error option" where
  "first_error [] = None"
| "first_error (Returns (Some e) # rs) = Some e"
| "first_error (r # rs) = first_error rs"

definition group_Wait :: "outcome list \<Rightarrow> outcome" where
  "group_Wait outs = (if Blocks \<in> set outs then Blocks else Returns (first_error outs))"

record run =
  cfg :: Server
  tasks :: "(task \<times> task_run) list"
  group_done :: bool
  result :: outcome

definition run_group ::
  "Server \<Rightarrow> (task \<Rightarrow> bool \<Rightarrow> task_run) \<Rightarrow> task list \<Rightarrow> bool \<Rightarrow> bool \<Rightarrow> run" where
  "run_group c f gos ctx_done http_first =
     (let done = (ctx_done \<or> list_ex (\<lambda>t. is_error (outcome (f t False))) gos);
          rs = map (\<lambda>t. (t, f t done)) gos;
          outs = map (\<lambda>r. outcome (snd r)) (if http_first then rev rs else rs)
      in \<lparr>cfg = c, tasks = rs, group_done = done,
          result = (if Panics \<in> set outs then Panics
                    else if \<not> done then Blocks
                    else group_Wait outs)\<rparr>)"

definition Go_calls :: "Server \<Rightarrow> task list" where
  \<comment> \<open>\<^verbatim>\<open>if !c.TFTP.Disabled { g.Go(...) }; if !c.HTTP.Disabled { g.Go(...) }\<close>\<close>
  "Go_calls c =
     (if \<not> Disabled (TFTP c) then [tftp_task] else [])
     @ (if \<not> Disabled (HTTP c) then [http_task] else [])"

definition ListenAndServe_task :: "Server \<Rightarrow> env \<Rightarrow> task \<Rightarrow> bool \<Rightarrow> task_run" where
  \<comment> \<open>the closures \<^verbatim>\<open>ListenAndServe\<close> passes to \<^verbatim>\<open>g.Go\<close>\<close>
  "ListenAndServe_task c en t d =
     (case t of tftp_task \<Rightarrow> listenAndServeTFTP c d en
              | http_task \<Rightarrow> listenAndServeHTTP c d en)"

definition Serve_task :: "Server \<Rightarrow> iface \<Rightarrow> iface \<Rightarrow> env \<Rightarrow> task \<Rightarrow> bool \<Rightarrow> task_run" where
  \<comment> \<open>the closures \<^verbatim>\<open>Serve\<close> passes to \<^verbatim>\<open>g.Go\<close>\<close>
  "Serve_task c tcpConn udpConn en t d =
     (case t of tftp_task \<Rightarrow> serveTFTP c d udpConn en
              | http_task \<Rightarrow> serveHTTP c d tcpConn en)"

definition ListenAndServe :: "Server \<Rightarrow> bool \<Rightarrow> bool \<Rightarrow> env \<Rightarrow> run" where
  "ListenAndServe c ctx_done http_first en =
     (let c = Merge c ListenAndServe_defaults
      in run_group c (ListenAndServe_task c en) (Go_calls c) ctx_done http_first)"

definition Serve :: "Server \<Rightarrow> bool \<Rightarrow> iface \<Rightarrow> iface \<Rightarrow> bool \<Rightarrow> env \<Rightarrow> run" where
  "Serve c ctx_done tcpConn udpConn http_first en =
     (if tcpConn = nil_iface
      then \<lparr>cfg = c, tasks = [], group_done = False,
            result = Returns (Some tcp_listener_must_not_be_nil)\<rparr>
      else if udpConn = nil_iface
      then \<lparr>cfg = c, tasks = [], group_done = False,
            result = Returns (Some udp_conn_must_not_be_nil)\<rparr>
      else
        (let c = Merge c Serve_defaults
         in run_group c (Serve_task c tcpConn udpConn en) (Go_calls c) ctx_done http_first))"

definition launched :: "run \<Rightarrow> task list" where
  "launched r = map fst (tasks r)"

definition task_outcomes :: "run \<Rightarrow> (task \<times> outcome) list" where
  \<comment> \<open>how each launched task ended, in the order of the \<^verbatim>\<open>g.Go\<close> calls\<close>
  "task_outcomes r = map (\<lambda>(t, tr). (t, outcome tr)) (tasks r)"

definition finish_order :: "bool \<Rightarrow> run \<Rightarrow> (task \<times> outcome) list" where
  \<comment> \<open>the same, in the order in which the tasks returned\<close>
  "finish_order http_first r = (if http_first then rev (task_outcomes r) else task_outcomes r)"

section \<open>Properties of traces\<close>

definition shutdown_after_grace :: "(nat \<times> event) list \<Rightarrow> bool" where
  \<comment> \<open>every socket close and every engine shutdown of a stamped trace is issued at least
      one second (in nanoseconds) after the TFTP serve loop was started\<close>
  "shutdown_after_grace tr =
     (\<forall>(t, e) \<in> set tr. e = ConnClose \<or> e = TsShutdown \<longrightarrow>
        (\<exists>(ts, s) \<in> set tr. s = GoServe tftp_task \<and> ts + 1000000000 \<le> t))"

fun in_order :: "event list \<Rightarrow> event list \<Rightarrow> bool" where
  \<comment> \<open>the events of the first list occur in the second, in this order\<close>
  "in_order [] tr = True"
| "in_order (x # xs) [] = False"
| "in_order (x # xs) (e # tr) = (if x = e then in_order xs tr else in_order (x # xs) tr)"

fun shutdown_sequence :: "task \<Rightarrow> event list" where
  \<comment> \<open>what a task does from the start of its serve loop to its shutdown: it receives from
      \<^verbatim>\<open>ctx.Done()\<close>, then issues its protocol's shutdown calls\<close>
  "shutdown_sequence tftp_task = [GoServe tftp_task, CtxDone, ConnClose, TsShutdown, GroupWait]"
| "shutdown_sequence http_task = [GoServe http_task, CtxDone, HsShutdown]"

section \<open>Runs used as examples\<close>

definition env_quiet :: env where
  \<comment> \<open>nothing fails: both loops serve until shut down and then return their
      shutdown-completion value\<close>
  "env_quiet =
     \<lparr>ResolveUDPAddr_err = None, ListenUDP_err = None,
      itftp_Serve = until_shutdown None,
      ihttp_Serve = until_shutdown (Some ErrServerClosed),
      hs_Shutdown = None\<rparr>"

definition env_busy :: env where
  \<comment> \<open>as \<open>env_quiet\<close>, but a request is in flight when \<^verbatim>\<open>hs.Shutdown(ctx)\<close> is called with
      the canceled context: \<^verbatim>\<open>Shutdown\<close> returns the context's error\<close>
  "env_busy =
     \<lparr>ResolveUDPAddr_err = None, ListenUDP_err = None,
      itftp_Serve = until_shutdown None,
      ihttp_Serve = until_shutdown (Some ErrServerClosed),
      hs_Shutdown = Some Canceled\<rparr>"

definition udp_bind_error :: lib_error where
  "udp_bind_error = OtherError ''listen udp 0.0.0.0:69: bind: permission denied''"

definition tcp_bind_error :: lib_error where
  "tcp_bind_error = OtherError ''listen tcp 0.0.0.0:8080: bind: address already in use''"

definition env_binds_fail :: env where
  \<comment> \<open>neither port can be bound: \<^verbatim>\<open>net.ListenUDP\<close> fails in the TFTP task, and
      \<^verbatim>\<open>ihttp.ListenAndServe\<close> returns the error of its \<^verbatim>\<open>net.Listen\<close>\<close>
  "env_binds_fail =
     \<lparr>ResolveUDPAddr_err = None,
      ListenUDP_err = Some udp_bind_error,
      itftp_Serve = until_shutdown None,
      ihttp_Serve = fails tcp_bind_error,
      hs_Shutdown = None\<rparr>"

definition env_udp_bind_fails :: env where
  \<comment> \<open>the UDP port cannot be bound; the HTTP loop serves until it is shut down\<close>
  "env_udp_bind_fails =
     \<lparr>ResolveUDPAddr_err = None,
      ListenUDP_err = Some udp_bind_error,
      itftp_Serve = until_shutdown None,
      ihttp_Serve = until_shutdown (Some ErrServerClosed),
      hs_Shutdown = None\<rparr>"

section \<open>Facts about the model\<close>

subsection \<open>Configuration\<close>

lemma Merge_idem: "Merge (Merge c d) d = Merge c d"
  by (simp add: Merge_def merge_ServerSpec_def merge_Duration_def merge_bool_def
      Transformer_Logger_def Transformer_IPPort_def)

lemma Merge_Disabled:
  "Disabled (TFTP (Merge c ListenAndServe_defaults)) = Disabled (TFTP c)"
  "Disabled (HTTP (Merge c ListenAndServe_defaults)) = Disabled (HTTP c)"
  "Disabled (TFTP (Merge c Serve_defaults)) = Disabled (TFTP c)"
  "Disabled (HTTP (Merge c Serve_defaults)) = Disabled (HTTP c)"
  by (simp_all add: Merge_def merge_ServerSpec_def merge_bool_def ListenAndServe_defaults_def
      Serve_defaults_def)

lemma sint_Second: "sint Second = 1000000000"
  by (simp add: Second_def)

subsection \<open>The group\<close>

lemma cfg_run_group: "cfg (run_group c f gos p h) = c"
  by (simp add: run_group_def Let_def)

lemma group_done_run_group:
  "group_done (run_group c f gos p h) = (p \<or> list_ex (\<lambda>t. is_error (outcome (f t False))) gos)"
  by (simp add: run_group_def Let_def)

lemma tasks_run_group:
  "tasks (run_group c f gos p h) = map (\<lambda>t. (t, f t (group_done (run_group c f gos p h)))) gos"
  by (simp add: run_group_def Let_def)

lemma launched_run_group: "launched (run_group c f gos p h) = gos"
  by (simp add: launched_def tasks_run_group comp_def)

lemma task_outcomes_run_group:
  "task_outcomes (run_group c f gos p h) =
     map (\<lambda>t. (t, outcome (f t (group_done (run_group c f gos p h))))) gos"
  by (simp add: task_outcomes_def tasks_run_group comp_def)

lemma set_finish_order: "set (map snd (finish_order h R)) = snd ` set (task_outcomes R)"
  by (simp add: finish_order_def)

lemma result_run_group:
  "result (run_group c f gos p h) =
     (if Panics \<in> snd ` set (task_outcomes (run_group c f gos p h)) then Panics
      else if \<not> group_done (run_group c f gos p h) then Blocks
      else group_Wait (map snd (finish_order h (run_group c f gos p h))))"
proof -
  define d where "d = (p \<or> list_ex (\<lambda>t. is_error (outcome (f t False))) gos)"
  define rs where "rs = map (\<lambda>t. (t, f t d)) gos"
  have R: "run_group c f gos p h =
      \<lparr>cfg = c, tasks = rs, group_done = d,
       result = (if Panics \<in> set (map (\<lambda>r. outcome (snd r)) (if h then rev rs else rs)) then Panics
                 else if \<not> d then Blocks
                 else group_Wait (map (\<lambda>r. outcome (snd r)) (if h then rev rs else rs)))\<rparr>"
    unfolding run_group_def Let_def d_def rs_def by (rule refl)
  have fo: "map snd (finish_order h (run_group c f gos p h))
      = map (\<lambda>r. outcome (snd r)) (if h then rev rs else rs)"
    by (simp add: R finish_order_def task_outcomes_def rev_map comp_def case_prod_unfold)
  have st: "snd ` set (task_outcomes (run_group c f gos p h))
      = set (map (\<lambda>r. outcome (snd r)) (if h then rev rs else rs))"
    by (simp add: R task_outcomes_def case_prod_unfold image_image)
  show ?thesis unfolding fo st by (simp add: R)
qed

lemma first_error_mem: "first_error outs = Some e \<Longrightarrow> Returns (Some e) \<in> set outs"
  by (induction outs rule: first_error.induct) auto

lemma first_error_None: "first_error outs = None \<longleftrightarrow> (\<forall>e. Returns (Some e) \<notin> set outs)"
  by (induction outs rule: first_error.induct) auto

lemma group_Wait_Returns:
  "group_Wait outs = Returns r \<Longrightarrow> Blocks \<notin> set outs \<and> r = first_error outs"
  by (simp add: group_Wait_def split: if_splits)

lemma not_Blocks_Panics: "out \<noteq> Blocks \<Longrightarrow> out \<noteq> Panics \<Longrightarrow> \<exists>x. out = Returns x"
  by (cases out) simp_all

text \<open>
  A group that returns: its context was done, every task returned, and the value is the
  first error in the order of returning.
\<close>

lemma run_group_Returns:
  assumes "result (run_group c f gos p h) = Returns r"
  shows "group_done (run_group c f gos p h)"
    and "r = first_error (map snd (finish_order h (run_group c f gos p h)))"
    and "\<forall>(t, out) \<in> set (task_outcomes (run_group c f gos p h)). \<exists>x. out = Returns x"
proof -
  define R where "R = run_group c f gos p h"
  define outs where "outs = map snd (finish_order h R)"
  have so: "set outs = snd ` set (task_outcomes R)"
    unfolding outs_def by (rule set_finish_order)
  have res: "result R = (if Panics \<in> set outs then Panics
      else if \<not> group_done R then Blocks else group_Wait outs)"
    unfolding so unfolding outs_def R_def by (rule result_run_group)
  from assms have rr: "result R = Returns r" by (simp add: R_def)
  from rr res have np: "Panics \<notin> set outs"
    by (cases "Panics \<in> set outs") simp_all
  from rr res np have d: "group_done R"
    by (cases "group_done R") simp_all
  from rr res np d have gw: "group_Wait outs = Returns r" by simp
  from group_Wait_Returns [OF gw] have nb: "Blocks \<notin> set outs" and r: "r = first_error outs"
    by simp_all
  show "group_done (run_group c f gos p h)" using d by (simp add: R_def)
  show "r = first_error (map snd (finish_order h (run_group c f gos p h)))"
    using r by (simp add: outs_def R_def)
  have "\<forall>(t, out) \<in> set (task_outcomes R). \<exists>x. out = Returns x"
  proof (clarify)
    fix t out assume m: "(t, out) \<in> set (task_outcomes R)"
    then have "out \<in> set outs" unfolding so by force
    with np nb have "out \<noteq> Blocks" "out \<noteq> Panics" by auto
    then show "\<exists>x. out = Returns x" by (rule not_Blocks_Panics)
  qed
  then show "\<forall>(t, out) \<in> set (task_outcomes (run_group c f gos p h)). \<exists>x. out = Returns x"
    by (simp add: R_def)
qed

lemma run_group_returned_error:
  assumes "result (run_group c f gos p h) = Returns (Some e)"
  shows "\<exists>t \<in> set gos. outcome (f t True) = Returns (Some e)"
proof -
  from run_group_Returns [OF assms] have d: "group_done (run_group c f gos p h)"
    and e: "Some e = first_error (map snd (finish_order h (run_group c f gos p h)))"
    by simp_all
  from e have "Returns (Some e) \<in> set (map snd (finish_order h (run_group c f gos p h)))"
    by (rule first_error_mem [OF sym])
  then have "Returns (Some e) \<in> snd ` set (task_outcomes (run_group c f gos p h))"
    unfolding set_finish_order .
  then show ?thesis using d by (auto simp: task_outcomes_run_group)
qed

text \<open>
  A task that returns an error without having been canceled returns it when canceled
  too, so the context of a group in which a task has returned an error is done.
\<close>

lemma run_group_error_cancels:
  assumes "(t, tr) \<in> set (tasks (run_group c f gos p h))" and "is_error (outcome tr)"
  shows "group_done (run_group c f gos p h)"
proof (rule ccontr)
  assume n: "\<not> group_done (run_group c f gos p h)"
  from assms(1) have "t \<in> set gos" and "tr = f t False"
    using n by (auto simp: tasks_run_group)
  with assms(2) have "list_ex (\<lambda>t. is_error (outcome (f t False))) gos"
    by (auto simp: list_ex_iff)
  then have "group_done (run_group c f gos p h)" by (simp add: group_done_run_group)
  with n show False by simp
qed

lemma run_group_first_error:
  assumes "result (run_group c f gos p h) = Returns r"
  shows "r = first_error (map snd (finish_order h (run_group c f gos p h)))
       \<and> (\<forall>e. r = Some e \<longrightarrow>
            (\<exists>t. (t, Returns (Some e)) \<in> set (task_outcomes (run_group c f gos p h))))
       \<and> ((r = None) =
            (\<forall>(t, out) \<in> set (task_outcomes (run_group c f gos p h)). out = Returns None))"
proof -
  define R where "R = run_group c f gos p h"
  from run_group_Returns [OF assms]
  have r: "r = first_error (map snd (finish_order h R))"
    and ret: "\<forall>(t, out) \<in> set (task_outcomes R). \<exists>x. out = Returns x"
    by (simp_all add: R_def)
  have a: "\<forall>e. r = Some e \<longrightarrow> (\<exists>t. (t, Returns (Some e)) \<in> set (task_outcomes R))"
  proof (intro allI impI)
    fix e assume "r = Some e"
    with r have "first_error (map snd (finish_order h R)) = Some e" by simp
    then have "Returns (Some e) \<in> set (map snd (finish_order h R))"
      by (rule first_error_mem)
    then have "Returns (Some e) \<in> snd ` set (task_outcomes R)"
      unfolding set_finish_order .
    then show "\<exists>t. (t, Returns (Some e)) \<in> set (task_outcomes R)" by force
  qed
  have fe: "(first_error (map snd (finish_order h R)) = None)
      = (\<forall>e. Returns (Some e) \<notin> snd ` set (task_outcomes R))"
    unfolding first_error_None set_finish_order ..
  have b: "(r = None) = (\<forall>(t, out) \<in> set (task_outcomes R). out = Returns None)"
  proof
    assume "r = None"
    with r have "first_error (map snd (finish_order h R)) = None" by simp
    then have n: "\<forall>e. Returns (Some e) \<notin> snd ` set (task_outcomes R)"
      unfolding fe .
    show "\<forall>(t, out) \<in> set (task_outcomes R). out = Returns None"
    proof clarify
      fix t out assume m: "(t, out) \<in> set (task_outcomes R)"
      with ret obtain x where x: "out = Returns x" by blast
      from m n have "out \<noteq> Returns (Some e)" for e by force
      with x show "out = Returns None" by (cases x) simp_all
    qed
  next
    assume all: "\<forall>(t, out) \<in> set (task_outcomes R). out = Returns None"
    then have "\<forall>e. Returns (Some e) \<notin> snd ` set (task_outcomes R)" by force
    then have "first_error (map snd (finish_order h R)) = None"
      unfolding fe .
    with r show "r = None" by simp
  qed
  from r a b show ?thesis by (simp add: R_def)
qed

lemma run_group_failure_cancels_sibling:
  assumes nb: "\<And>t. outcome (f t True) \<noteq> Blocks"
    and sd: "\<And>t. GoServe t \<in> set (trace (f t True)) \<Longrightarrow>
               in_order (shutdown_sequence t) (trace (f t True))"
    and m: "(t, tr) \<in> set (tasks (run_group c f gos p h))" and e: "is_error (outcome tr)"
  shows "group_done (run_group c f gos p h)
       \<and> (\<forall>(t', tr') \<in> set (tasks (run_group c f gos p h)).
            GoServe t' \<in> set (trace tr') \<longrightarrow> in_order (shutdown_sequence t') (trace tr'))
       \<and> (\<forall>(t', tr') \<in> set (tasks (run_group c f gos p h)). outcome tr' \<noteq> Blocks)
       \<and> result (run_group c f gos p h) \<noteq> Blocks"
proof -
  define R where "R = run_group c f gos p h"
  have d: "group_done R" unfolding R_def using m e by (rule run_group_error_cancels)
  have ts: "tasks R = map (\<lambda>t. (t, f t True)) gos"
    using d by (simp add: R_def tasks_run_group)
  have s: "\<forall>(t', tr') \<in> set (tasks R).
      GoServe t' \<in> set (trace tr') \<longrightarrow> in_order (shutdown_sequence t') (trace tr')"
    unfolding ts using sd by auto
  have b: "\<forall>(t', tr') \<in> set (tasks R). outcome tr' \<noteq> Blocks"
    unfolding ts using nb by auto
  have "Blocks \<notin> snd ` set (task_outcomes R)"
    using b by (auto simp: task_outcomes_def)
  then have "Blocks \<notin> set (map snd (finish_order h R))"
    unfolding set_finish_order .
  then have "group_Wait (map snd (finish_order h R)) \<noteq> Blocks"
    by (simp add: group_Wait_def)
  with d have r: "result R \<noteq> Blocks"
    by (simp add: R_def result_run_group)
  from d s b r show ?thesis by (simp add: R_def)
qed

subsection \<open>The entry points as groups\<close>

lemma ListenAndServe_run_group:
  "ListenAndServe c p h en =
       run_group (Merge c ListenAndServe_defaults)
         (ListenAndServe_task (Merge c ListenAndServe_defaults) en)
         (Go_calls (Merge c ListenAndServe_defaults)) p h"
  by (simp add: ListenAndServe_def Let_def)

lemma Serve_run_group:
  "tcp \<noteq> nil_iface \<Longrightarrow> udp \<noteq> nil_iface \<Longrightarrow>
     Serve c p tcp udp h en =
       run_group (Merge c Serve_defaults) (Serve_task (Merge c Serve_defaults) tcp udp en)
         (Go_calls (Merge c Serve_defaults)) p h"
  by (simp add: Serve_def Let_def)

lemma cfg_ListenAndServe: "cfg (ListenAndServe c p h en) = Merge c ListenAndServe_defaults"
  by (simp add: ListenAndServe_def Let_def cfg_run_group)

lemma cfg_Serve:
  "cfg (Serve c p tcp udp h en) =
     (if tcp = nil_iface \<or> udp = nil_iface then c else Merge c Serve_defaults)"
  by (simp add: Serve_def Let_def cfg_run_group)

lemma Go_calls_Merge:
  "Go_calls (Merge c ListenAndServe_defaults) =
     (if Disabled (TFTP c) then [] else [tftp_task]) @ (if Disabled (HTTP c) then [] else [http_task])"
  "Go_calls (Merge c Serve_defaults) =
     (if Disabled (TFTP c) then [] else [tftp_task]) @ (if Disabled (HTTP c) then [] else [http_task])"
  by (simp_all add: Go_calls_def Merge_Disabled)

subsection \<open>The tasks\<close>

lemma WithContext_done_True: "WithContext_done True lp"
  by (cases lp) simp_all

lemma Wait_is_Lib: "Wait lp = Some e \<Longrightarrow> \<exists>l. e = Lib l"
  by (cases lp) auto

lemma serveTFTP_error:
  "outcome (serveTFTP c d conn en) = Returns (Some e) \<Longrightarrow>
     e = conn_must_not_be_nil \<or> (\<exists>l. e = Lib l)"
  by (cases conn) (auto simp: serveTFTP_def Let_def split: if_splits dest: Wait_is_Lib)

lemma serveHTTP_error:
  "outcome (serveHTTP c d l en) = Returns (Some e) \<Longrightarrow>
     e = listener_must_not_be_nil \<or> (\<exists>l. e = Lib l)"
  by (cases l)
     (auto simp: serveHTTP_def Let_def split: if_splits option.splits dest: Wait_is_Lib)

lemma Serve_task_error:
  "outcome (Serve_task c tcp udp en t d) = Returns (Some e) \<Longrightarrow>
     e \<noteq> tcp_listener_must_not_be_nil \<and> e \<noteq> udp_conn_must_not_be_nil"
  by (cases t) (auto simp: Serve_task_def dest: serveTFTP_error serveHTTP_error)

lemma ListenAndServe_task_not_Blocks:
  "outcome (ListenAndServe_task c en t True) \<noteq> Blocks"
  by (cases t)
     (simp_all add: ListenAndServe_task_def listenAndServeTFTP_def listenAndServeHTTP_def
        Let_def WithContext_done_True split: option.splits)

lemma Serve_task_not_Blocks:
  "outcome (Serve_task c tcp udp en t True) \<noteq> Blocks"
  by (cases t; cases tcp; cases udp)
     (simp_all add: Serve_task_def serveTFTP_def serveHTTP_def Let_def WithContext_done_True
        split: option.splits)

lemma ListenAndServe_task_shutdown:
  "GoServe t \<in> set (trace (ListenAndServe_task c en t True)) \<Longrightarrow>
     in_order (shutdown_sequence t) (trace (ListenAndServe_task c en t True))"
  by (cases t)
     (simp_all add: ListenAndServe_task_def listenAndServeTFTP_def listenAndServeHTTP_def
        Let_def WithContext_done_True split: option.splits)

lemma Serve_task_shutdown:
  "GoServe t \<in> set (trace (Serve_task c tcp udp en t True)) \<Longrightarrow>
     in_order (shutdown_sequence t) (trace (Serve_task c tcp udp en t True))"
  by (cases t; cases tcp; cases udp)
     (simp_all add: Serve_task_def serveTFTP_def serveHTTP_def Let_def WithContext_done_True
        split: option.splits)

lemma returns_after_tasks:
  assumes "R = ListenAndServe c ctx_done http_first en
         \<or> R = Serve c ctx_done tcpConn udpConn http_first en"
    and "result R = Returns r"
  shows "\<forall>(t, out) \<in> set (task_outcomes R). \<exists>x. out = Returns x"
  using assms(1)
proof
  assume R: "R = ListenAndServe c ctx_done http_first en"
  show ?thesis using assms(2) unfolding R ListenAndServe_run_group
    by (rule run_group_Returns(3))
next
  assume R: "R = Serve c ctx_done tcpConn udpConn http_first en"
  show ?thesis
  proof (cases "tcpConn = nil_iface \<or> udpConn = nil_iface")
    case True
    then show ?thesis unfolding R by (auto simp: Serve_def task_outcomes_def)
  next
    case False
    then have n: "tcpConn \<noteq> nil_iface" "udpConn \<noteq> nil_iface" by simp_all
    show ?thesis using assms(2) unfolding R Serve_run_group [OF n]
      by (rule run_group_Returns(3))
  qed
qed

subsection \<open>Three runs of \<^verbatim>\<open>ListenAndServe\<close> on the zero configuration\<close>

lemma ListenAndServe_binds_fail:
  "ListenAndServe Server_zero False False env_binds_fail =
     \<lparr>cfg = ListenAndServe_defaults,
      tasks = [(tftp_task, \<lparr>trace = [ResolveUDPAddr, ListenUDP],
                            outcome = Returns (Some (Lib udp_bind_error))\<rparr>),
               (http_task, \<lparr>trace = [LogInfo ''serving HTTP'', GoServe http_task, CtxDone,
                                      HsShutdown, GroupWait],
                            outcome = Returns (Some (Lib tcp_bind_error))\<rparr>)],
      group_done = True,
      result = Returns (Some (Lib udp_bind_error))\<rparr>"
  by (simp add: ListenAndServe_def Let_def run_group_def Go_calls_def
      ListenAndServe_task_def listenAndServeTFTP_def listenAndServeHTTP_def env_binds_fail_def
      Merge_def merge_ServerSpec_def merge_bool_def merge_Duration_def Server_zero_def
      ListenAndServe_defaults_def Transformer_IPPort_def Transformer_Logger_def IsZero_def
      GetSink_def Second_def
      group_Wait_def udp_bind_error_def tcp_bind_error_def)

lemma ListenAndServe_binds_fail_http_first:
  "ListenAndServe Server_zero False True env_binds_fail =
     \<lparr>cfg = ListenAndServe_defaults,
      tasks = [(tftp_task, \<lparr>trace = [ResolveUDPAddr, ListenUDP],
                            outcome = Returns (Some (Lib udp_bind_error))\<rparr>),
               (http_task, \<lparr>trace = [LogInfo ''serving HTTP'', GoServe http_task, CtxDone,
                                      HsShutdown, GroupWait],
                            outcome = Returns (Some (Lib tcp_bind_error))\<rparr>)],
      group_done = True,
      result = Returns (Some (Lib tcp_bind_error))\<rparr>"
  by (simp add: ListenAndServe_def Let_def run_group_def Go_calls_def
      ListenAndServe_task_def listenAndServeTFTP_def listenAndServeHTTP_def env_binds_fail_def
      Merge_def merge_ServerSpec_def merge_bool_def merge_Duration_def Server_zero_def
      ListenAndServe_defaults_def Transformer_IPPort_def Transformer_Logger_def IsZero_def
      GetSink_def Second_def
      group_Wait_def udp_bind_error_def tcp_bind_error_def)

lemma ListenAndServe_udp_bind_fails:
  "ListenAndServe Server_zero False False env_udp_bind_fails =
     \<lparr>cfg = ListenAndServe_defaults,
      tasks = [(tftp_task, \<lparr>trace = [ResolveUDPAddr, ListenUDP],
                            outcome = Returns (Some (Lib udp_bind_error))\<rparr>),
               (http_task, \<lparr>trace = [LogInfo ''serving HTTP'', GoServe http_task, CtxDone,
                                      HsShutdown, GroupWait],
                            outcome = Returns None\<rparr>)],
      group_done = True,
      result = Returns (Some (Lib udp_bind_error))\<rparr>"
  by (simp add: ListenAndServe_def Let_def run_group_def Go_calls_def
      ListenAndServe_task_def listenAndServeTFTP_def listenAndServeHTTP_def
      env_udp_bind_fails_def
      Merge_def merge_ServerSpec_def merge_bool_def merge_Duration_def Server_zero_def
      ListenAndServe_defaults_def Transformer_IPPort_def Transformer_Logger_def IsZero_def
      GetSink_def Second_def
      group_Wait_def udp_bind_error_def)

section \<open>The claims\<close>

text \<open>
  Claim C1. Whatever context \<^verbatim>\<open>serveTFTP\<close> or \<^verbatim>\<open>listenAndServeTFTP\<close> is given, also one
  that is canceled before the call, and whatever the scheduler does, the close of the
  socket and the \<^verbatim>\<open>Shutdown\<close> of the TFTP engine are issued at least one second after the
  serve loop was started with \<^verbatim>\<open>g.Go\<close>.
\<close>

theorem tftp_shutdown_after_grace_delay:
  "shutdown_after_grace (stamp t0 delay 0 (trace (serveTFTP c ctx_done conn en)))
   \<and> shutdown_after_grace (stamp t0 delay 0 (trace (listenAndServeTFTP c ctx_done en)))"
proof
  show "shutdown_after_grace (stamp t0 delay 0 (trace (serveTFTP c ctx_done conn en)))"
    by (cases conn; cases "WithContext_done ctx_done (itftp_Serve en)";
        cases "EnableTFTPSinglePort c")
       (simp_all add: serveTFTP_def shutdown_after_grace_def Let_def sint_Second)
  show "shutdown_after_grace (stamp t0 delay 0 (trace (listenAndServeTFTP c ctx_done en)))"
    by (cases "ResolveUDPAddr_err en"; cases "ListenUDP_err en";
        cases "WithContext_done ctx_done (itftp_Serve en)"; cases "EnableTFTPSinglePort c")
       (simp_all add: listenAndServeTFTP_def shutdown_after_grace_def Let_def sint_Second)
qed

theorem tftp_shutdown_after_grace_delay_witness:
  "stamp 0 (\<lambda>i. 0) 0 (trace (serveTFTP Serve_defaults True live_ptr env_quiet)) =
     [(0, NewServer), (0, SetTimeout (5 * Second)), (0, LogInfo ''serving TFTP''),
      (0, GoServe tftp_task), (0, Sleep Second), (1000000000, CtxDone),
      (1000000000, ConnClose), (1000000000, TsShutdown), (1000000000, GroupWait)]
   \<and> shutdown_after_grace
        (stamp 0 (\<lambda>i. 0) 0 (trace (serveTFTP Serve_defaults True live_ptr env_quiet)))"
  using tftp_shutdown_after_grace_delay [of 0 "\<lambda>i. 0" Serve_defaults True live_ptr env_quiet]
  by (simp add: serveTFTP_def env_quiet_def Serve_defaults_def sint_Second)

text \<open>
  Claim C2, as the code has it. When \<^verbatim>\<open>ListenAndServe\<close>, or \<^verbatim>\<open>Serve\<close> with both handles
  non-nil, returns, the value is the first non-nil error in the order in which the tasks
  returned: the error of one task, nil exactly when every launched task returned nil.
  Errors of tasks that return later are dropped, not joined.
\<close>

theorem group_returns_first_error_only:
  assumes "R = ListenAndServe c ctx_done http_first en
         \<or> (tcpConn \<noteq> nil_iface \<and> udpConn \<noteq> nil_iface
            \<and> R = Serve c ctx_done tcpConn udpConn http_first en)"
    and "result R = Returns r"
  shows "r = first_error (map snd (finish_order http_first R))
       \<and> (\<forall>e. r = Some e \<longrightarrow> (\<exists>t. (t, Returns (Some e)) \<in> set (task_outcomes R)))
       \<and> ((r = None) = (\<forall>(t, out) \<in> set (task_outcomes R). out = Returns None))"
  using assms(1)
proof (elim disjE conjE)
  assume R: "R = ListenAndServe c ctx_done http_first en"
  show ?thesis using assms(2) unfolding R ListenAndServe_run_group
    by (rule run_group_first_error)
next
  assume n: "tcpConn \<noteq> nil_iface" "udpConn \<noteq> nil_iface"
    and R: "R = Serve c ctx_done tcpConn udpConn http_first en"
  show ?thesis using assms(2) unfolding R Serve_run_group [OF n]
    by (rule run_group_first_error)
qed

theorem second_task_error_dropped:
  "task_outcomes (ListenAndServe Server_zero False False env_binds_fail) =
     [(tftp_task, Returns (Some (Lib udp_bind_error))),
      (http_task, Returns (Some (Lib tcp_bind_error)))]
   \<and> result (ListenAndServe Server_zero False False env_binds_fail)
       = Returns (Some (Lib udp_bind_error))
   \<and> \<not> errors_Is (Some (Lib udp_bind_error)) (Lib tcp_bind_error)"
  by (simp add: ListenAndServe_binds_fail task_outcomes_def udp_bind_error_def
      tcp_bind_error_def)

theorem group_returns_first_error_only_witness:
  "result (ListenAndServe Server_zero False False env_binds_fail)
     = Returns (Some (Lib udp_bind_error))
   \<and> Some (Lib udp_bind_error)
     = first_error (map snd (finish_order False
         (ListenAndServe Server_zero False False env_binds_fail)))
   \<and> result (Serve Server_zero True live_ptr live_ptr False env_quiet) = Returns None
   \<and> live_ptr \<noteq> nil_iface"
proof -
  have r: "result (ListenAndServe Server_zero False False env_binds_fail)
     = Returns (Some (Lib udp_bind_error))"
    by (simp add: ListenAndServe_binds_fail)
  have s: "result (Serve Server_zero True live_ptr live_ptr False env_quiet) = Returns None"
    by (simp add: Serve_def Let_def run_group_def Go_calls_def Merge_Disabled
        Serve_task_def serveTFTP_def serveHTTP_def env_quiet_def Server_zero_def group_Wait_def)
  from group_returns_first_error_only [OF disjI1 [OF refl] r] r s show ?thesis by simp
qed

text \<open>
  Claim C3. \<^verbatim>\<open>Serve\<close> with a nil TCP listener returns the invalid-argument error at once,
  whatever the context and the UDP argument: the configuration is not resolved and no
  task is started. With a TCP listener that is not nil and a nil UDP conn it does the
  same with the error of the UDP argument.
\<close>

theorem Serve_nil_handle_rejected:
  "Serve c ctx_done nil_iface udpConn http_first en =
     \<lparr>cfg = c, tasks = [], group_done = False,
      result = Returns (Some tcp_listener_must_not_be_nil)\<rparr>
   \<and> (tcpConn \<noteq> nil_iface \<longrightarrow>
        Serve c ctx_done tcpConn nil_iface http_first en =
          \<lparr>cfg = c, tasks = [], group_done = False,
           result = Returns (Some udp_conn_must_not_be_nil)\<rparr>)"
  by (simp add: Serve_def)

theorem Serve_nil_handle_rejected_witness:
  "live_ptr \<noteq> nil_iface
   \<and> Serve Server_zero False nil_iface typed_nil False env_quiet =
       \<lparr>cfg = Server_zero, tasks = [], group_done = False,
        result = Returns (Some tcp_listener_must_not_be_nil)\<rparr>
   \<and> Serve Server_zero False live_ptr nil_iface False env_quiet =
       \<lparr>cfg = Server_zero, tasks = [], group_done = False,
        result = Returns (Some udp_conn_must_not_be_nil)\<rparr>"
  using Serve_nil_handle_rejected [of Server_zero False typed_nil False env_quiet live_ptr]
  by simp

text \<open>
  Claim C4. The configuration \<^verbatim>\<open>ListenAndServe\<close> works with has, field by field, the
  caller's value where it is set and the default where it is not: \<^verbatim>\<open>0.0.0.0:69\<close> for
  the TFTP address and \<^verbatim>\<open>0.0.0.0:8080\<close> for the HTTP address when \<^verbatim>\<open>IsZero\<close>, five
  seconds for a timeout of \<open>0\<close>, the discarding logger for a logger without a sink. The
  two flags are kept.
\<close>

theorem ListenAndServe_resolves_defaults:
  "cfg (ListenAndServe c ctx_done http_first en) =
     \<lparr>TFTP = \<lparr>Addr = (if IsZero (Addr (TFTP c)) then IPPortFrom (IPv4 0 0 0 0) 69
                      else Addr (TFTP c)),
              Timeout = (if Timeout (TFTP c) = 0 then 5 * Second else Timeout (TFTP c)),
              Disabled = Disabled (TFTP c)\<rparr>,
      HTTP = \<lparr>Addr = (if IsZero (Addr (HTTP c)) then IPPortFrom (IPv4 0 0 0 0) 8080
                      else Addr (HTTP c)),
              Timeout = (if Timeout (HTTP c) = 0 then 5 * Second else Timeout (HTTP c)),
              Disabled = Disabled (HTTP c)\<rparr>,
      Log = (if GetSink (Log c) = None then Discard else Log c),
      EnableTFTPSinglePort = EnableTFTPSinglePort c\<rparr>"
  by (simp add: cfg_ListenAndServe Merge_def merge_ServerSpec_def merge_Duration_def
      merge_bool_def Transformer_Logger_def Transformer_IPPort_def ListenAndServe_defaults_def
      Second_def)

theorem ListenAndServe_resolves_defaults_witness:
  "cfg (ListenAndServe Server_zero True False env_quiet) = ListenAndServe_defaults
   \<and> cfg (ListenAndServe
        (Server_zero\<lparr>HTTP := \<lparr>Addr = IPPortFrom (IPv4 127 0 0 1) 8000, Timeout = Second,
                               Disabled = True\<rparr>\<rparr>) True False env_quiet)
     = ListenAndServe_defaults\<lparr>HTTP := \<lparr>Addr = IPPortFrom (IPv4 127 0 0 1) 8000,
                                        Timeout = Second, Disabled = True\<rparr>\<rparr>"
  using ListenAndServe_resolves_defaults [of Server_zero True False env_quiet]
    ListenAndServe_resolves_defaults
      [of "Server_zero\<lparr>HTTP := \<lparr>Addr = IPPortFrom (IPv4 127 0 0 1) 8000, Timeout = Second,
                               Disabled = True\<rparr>\<rparr>" True False env_quiet]
  by (simp add: Server_zero_def ListenAndServe_defaults_def IsZero_def GetSink_def
      IPPortFrom_def IPPort_zero_def IPv4_def Second_def)

text \<open>
  Claim C5. Resolving a resolved configuration changes nothing: the configuration
  \<^verbatim>\<open>ListenAndServe\<close> leaves behind is a fixed point of its resolution, and so is the one
  \<^verbatim>\<open>Serve\<close> leaves behind.
\<close>

theorem resolution_idempotent:
  "cfg (ListenAndServe (cfg (ListenAndServe c p h en)) p' h' en')
     = cfg (ListenAndServe c p h en)
   \<and> cfg (Serve (cfg (Serve c p tcp udp h en)) p' tcp udp h' en')
     = cfg (Serve c p tcp udp h en)
   \<and> Merge (Merge c d) d = Merge c d"
  by (simp add: cfg_ListenAndServe cfg_Serve Merge_idem)

text \<open>
  Claim C6, as the code has it. Once the context is done, \<^verbatim>\<open>listenAndServeHTTP\<close> and
  \<^verbatim>\<open>serveHTTP\<close> (on a live listener) return nil when \<^verbatim>\<open>hs.Shutdown\<close> has returned nil
  and the error of the serve loop is, or wraps, \<^verbatim>\<open>http.ErrServerClosed\<close>. When
  \<^verbatim>\<open>hs.Shutdown\<close> returns an error, that error is returned, whatever the loop returned.
\<close>

theorem ErrServerClosed_suppressed_after_clean_Shutdown:
  assumes "WithContext_done ctx_done (ihttp_Serve en)"
  shows "(hs_Shutdown en = None \<longrightarrow>
          errors_Is (Wait (ihttp_Serve en)) (Lib ErrServerClosed) \<longrightarrow>
            outcome (listenAndServeHTTP c ctx_done en) = Returns None
          \<and> outcome (serveHTTP c ctx_done live_ptr en) = Returns None)
       \<and> (\<forall>e. hs_Shutdown en = Some e \<longrightarrow>
            outcome (listenAndServeHTTP c ctx_done en) = Returns (Some (Lib e))
          \<and> outcome (serveHTTP c ctx_done live_ptr en) = Returns (Some (Lib e)))"
  using assms by (simp add: listenAndServeHTTP_def serveHTTP_def Let_def)

theorem Shutdown_error_returned:
  "Wait (ihttp_Serve env_busy) = Some (Lib ErrServerClosed)
   \<and> listenAndServeHTTP ListenAndServe_defaults True env_busy =
       \<lparr>trace = [LogInfo ''serving HTTP'', GoServe http_task, CtxDone, HsShutdown],
        outcome = Returns (Some (Lib Canceled))\<rparr>
   \<and> serveHTTP Serve_defaults True live_ptr env_busy =
       \<lparr>trace = [LogInfo ''serving HTTP'', GoServe http_task, CtxDone, HsShutdown],
        outcome = Returns (Some (Lib Canceled))\<rparr>"
  by (simp add: env_busy_def listenAndServeHTTP_def serveHTTP_def)

theorem ErrServerClosed_suppressed_after_clean_Shutdown_witness:
  "WithContext_done True (ihttp_Serve env_quiet)
   \<and> hs_Shutdown env_quiet = None
   \<and> errors_Is (Wait (ihttp_Serve env_quiet)) (Lib ErrServerClosed)
   \<and> outcome (listenAndServeHTTP ListenAndServe_defaults True env_quiet) = Returns None
   \<and> outcome (serveHTTP ListenAndServe_defaults True live_ptr env_quiet) = Returns None"
proof -
  have a: "WithContext_done True (ihttp_Serve env_quiet)" by (simp add: env_quiet_def)
  have b: "hs_Shutdown env_quiet = None" by (simp add: env_quiet_def)
  have c: "errors_Is (Wait (ihttp_Serve env_quiet)) (Lib ErrServerClosed)"
    by (simp add: env_quiet_def)
  from ErrServerClosed_suppressed_after_clean_Shutdown [OF a, of ListenAndServe_defaults] a b c
  show ?thesis by simp
qed

text \<open>
  Claim C7, as the code has it. When a task of \<^verbatim>\<open>ListenAndServe\<close> or \<^verbatim>\<open>Serve\<close> returns a
  non-nil error, the context shared by the tasks is canceled. Every launched task that
  has started its serve loop then receives from \<^verbatim>\<open>ctx.Done()\<close> and issues its shutdown
  calls; no launched task blocks, the orchestrator does not block, and when it returns
  every launched task has returned. A task that returned before it started its serve
  loop receives nothing and shuts nothing down.
\<close>

theorem task_failure_cancels_serving_sibling:
  assumes "R = ListenAndServe c ctx_done http_first en
         \<or> R = Serve c ctx_done tcpConn udpConn http_first en"
    and "(t, tr) \<in> set (tasks R)" and "is_error (outcome tr)"
  shows "group_done R
       \<and> (\<forall>(t', tr') \<in> set (tasks R).
            GoServe t' \<in> set (trace tr') \<longrightarrow> in_order (shutdown_sequence t') (trace tr'))
       \<and> (\<forall>(t', tr') \<in> set (tasks R). outcome tr' \<noteq> Blocks)
       \<and> result R \<noteq> Blocks
       \<and> (\<forall>r. result R = Returns r \<longrightarrow>
            (\<forall>(t', out) \<in> set (task_outcomes R). \<exists>x. out = Returns x))"
proof -
  have main: "group_done R
       \<and> (\<forall>(t', tr') \<in> set (tasks R).
            GoServe t' \<in> set (trace tr') \<longrightarrow> in_order (shutdown_sequence t') (trace tr'))
       \<and> (\<forall>(t', tr') \<in> set (tasks R). outcome tr' \<noteq> Blocks)
       \<and> result R \<noteq> Blocks"
    using assms(1)
  proof
    assume R: "R = ListenAndServe c ctx_done http_first en"
    show ?thesis unfolding R ListenAndServe_run_group
    proof (rule run_group_failure_cancels_sibling)
      show "(t, tr) \<in> set (tasks (run_group (Merge c ListenAndServe_defaults)
              (ListenAndServe_task (Merge c ListenAndServe_defaults) en)
              (Go_calls (Merge c ListenAndServe_defaults)) ctx_done http_first))"
        using assms(2) unfolding R ListenAndServe_run_group .
      show "is_error (outcome tr)" by (rule assms(3))
    qed (rule ListenAndServe_task_not_Blocks ListenAndServe_task_shutdown, assumption?)+
  next
    assume R: "R = Serve c ctx_done tcpConn udpConn http_first en"
    from assms(2) have n: "tcpConn \<noteq> nil_iface" "udpConn \<noteq> nil_iface"
      unfolding R by (auto simp: Serve_def split: if_splits)
    show ?thesis unfolding R Serve_run_group [OF n]
    proof (rule run_group_failure_cancels_sibling)
      show "(t, tr) \<in> set (tasks (run_group (Merge c Serve_defaults)
              (Serve_task (Merge c Serve_defaults) tcpConn udpConn en)
              (Go_calls (Merge c Serve_defaults)) ctx_done http_first))"
        using assms(2) unfolding R Serve_run_group [OF n] .
      show "is_error (outcome tr)" by (rule assms(3))
    qed (rule Serve_task_not_Blocks Serve_task_shutdown, assumption?)+
  qed
  have "\<forall>r. result R = Returns r \<longrightarrow>
            (\<forall>(t', out) \<in> set (task_outcomes R). \<exists>x. out = Returns x)"
    using returns_after_tasks [OF assms(1)] by blast
  with main show ?thesis by blast
qed

theorem sibling_returned_before_serving:
  "ListenAndServe Server_zero False True env_binds_fail =
     \<lparr>cfg = ListenAndServe_defaults,
      tasks = [(tftp_task, \<lparr>trace = [ResolveUDPAddr, ListenUDP],
                            outcome = Returns (Some (Lib udp_bind_error))\<rparr>),
               (http_task, \<lparr>trace = [LogInfo ''serving HTTP'', GoServe http_task, CtxDone,
                                      HsShutdown, GroupWait],
                            outcome = Returns (Some (Lib tcp_bind_error))\<rparr>)],
      group_done = True,
      result = Returns (Some (Lib tcp_bind_error))\<rparr>
   \<and> is_error (Returns (Some (Lib tcp_bind_error)))
   \<and> CtxDone \<notin> set [ResolveUDPAddr, ListenUDP]
   \<and> ConnClose \<notin> set [ResolveUDPAddr, ListenUDP]
   \<and> TsShutdown \<notin> set [ResolveUDPAddr, ListenUDP]"
  by (simp add: ListenAndServe_binds_fail_http_first)

theorem task_failure_cancels_serving_sibling_witness:
  "(tftp_task, \<lparr>trace = [ResolveUDPAddr, ListenUDP],
                outcome = Returns (Some (Lib udp_bind_error))\<rparr>)
     \<in> set (tasks (ListenAndServe Server_zero False False env_udp_bind_fails))
   \<and> is_error (Returns (Some (Lib udp_bind_error)))
   \<and> group_done (ListenAndServe Server_zero False False env_udp_bind_fails)
   \<and> in_order (shutdown_sequence http_task)
        [LogInfo ''serving HTTP'', GoServe http_task, CtxDone, HsShutdown, GroupWait]
   \<and> result (ListenAndServe Server_zero False False env_udp_bind_fails)
       = Returns (Some (Lib udp_bind_error))"
proof -
  have m: "(tftp_task, \<lparr>trace = [ResolveUDPAddr, ListenUDP],
                outcome = Returns (Some (Lib udp_bind_error))\<rparr>)
     \<in> set (tasks (ListenAndServe Server_zero False False env_udp_bind_fails))"
    by (simp add: ListenAndServe_udp_bind_fails)
  have e: "is_error (outcome \<lparr>trace = [ResolveUDPAddr, ListenUDP],
                outcome = Returns (Some (Lib udp_bind_error))\<rparr>)"
    by simp
  from task_failure_cancels_serving_sibling [OF disjI1 [OF refl] m e] m
  show ?thesis by (simp add: ListenAndServe_udp_bind_fails)
qed

text \<open>
  Claim C8, as the code has it. \<^verbatim>\<open>ListenAndServe\<close>, and \<^verbatim>\<open>Serve\<close> when both handles are
  not nil, start one task for each protocol whose \<^verbatim>\<open>Disabled\<close> flag is false, TFTP
  first, and none for a protocol whose flag is true. \<^verbatim>\<open>Serve\<close> with a nil handle starts
  no task, whatever the flags.
\<close>

theorem tasks_started_iff_enabled:
  "launched (ListenAndServe c ctx_done http_first en) =
     (if Disabled (TFTP c) then [] else [tftp_task])
     @ (if Disabled (HTTP c) then [] else [http_task])
   \<and> (tcpConn \<noteq> nil_iface \<and> udpConn \<noteq> nil_iface \<longrightarrow>
        launched (Serve c ctx_done tcpConn udpConn http_first en) =
          (if Disabled (TFTP c) then [] else [tftp_task])
          @ (if Disabled (HTTP c) then [] else [http_task]))
   \<and> (tcpConn = nil_iface \<or> udpConn = nil_iface \<longrightarrow>
        launched (Serve c ctx_done tcpConn udpConn http_first en) = [])"
proof (intro conjI impI)
  show "launched (ListenAndServe c ctx_done http_first en) =
     (if Disabled (TFTP c) then [] else [tftp_task])
     @ (if Disabled (HTTP c) then [] else [http_task])"
    by (simp only: ListenAndServe_run_group launched_run_group Go_calls_Merge)
next
  assume "tcpConn \<noteq> nil_iface \<and> udpConn \<noteq> nil_iface"
  then have n: "tcpConn \<noteq> nil_iface" "udpConn \<noteq> nil_iface" by simp_all
  show "launched (Serve c ctx_done tcpConn udpConn http_first en) =
          (if Disabled (TFTP c) then [] else [tftp_task])
          @ (if Disabled (HTTP c) then [] else [http_task])"
    by (simp only: Serve_run_group [OF n] launched_run_group Go_calls_Merge)
next
  assume "tcpConn = nil_iface \<or> udpConn = nil_iface"
  then show "launched (Serve c ctx_done tcpConn udpConn http_first en) = []"
    by (auto simp: Serve_def launched_def)
qed

theorem nil_handle_starts_no_task:
  "launched (Serve Server_zero True nil_iface live_ptr False env_quiet) = []
   \<and> Disabled (TFTP Server_zero) = False
   \<and> Disabled (HTTP Server_zero) = False"
  by (simp add: Serve_def launched_def Server_zero_def)

theorem tasks_started_iff_enabled_witness:
  "live_ptr \<noteq> nil_iface
   \<and> launched (Serve Server_zero True live_ptr live_ptr False env_quiet)
       = [tftp_task, http_task]
   \<and> launched (ListenAndServe (Server_zero\<lparr>TFTP := (TFTP Server_zero)\<lparr>Disabled := True\<rparr>\<rparr>)
        True False env_quiet) = [http_task]"
  using tasks_started_iff_enabled [of Server_zero True False env_quiet live_ptr live_ptr]
    tasks_started_iff_enabled
      [of "Server_zero\<lparr>TFTP := (TFTP Server_zero)\<lparr>Disabled := True\<rparr>\<rparr>" True False env_quiet
          live_ptr live_ptr]
  by (simp add: Server_zero_def)

text \<open>
  Claim C9. Given a typed nil (an interface value that is not nil and holds a nil
  pointer), \<^verbatim>\<open>serveHTTP\<close> and \<^verbatim>\<open>serveTFTP\<close> return their must-not-be-nil error before
  any effect: nothing is logged and no serve loop is started.
\<close>

theorem typed_nil_handle_detected:
  "serveHTTP c ctx_done typed_nil en =
     \<lparr>trace = [], outcome = Returns (Some listener_must_not_be_nil)\<rparr>
   \<and> serveTFTP c ctx_done typed_nil en =
     \<lparr>trace = [], outcome = Returns (Some conn_must_not_be_nil)\<rparr>"
  by (simp add: serveHTTP_def serveTFTP_def)

text \<open>
  Claim C10. When \<^verbatim>\<open>Serve\<close> returns one of its two nil-handle errors, the configuration
  is the caller's: nothing was merged into it.
\<close>

theorem Serve_config_error_leaves_config:
  assumes "result (Serve c p tcp udp h en) = Returns (Some tcp_listener_must_not_be_nil)
         \<or> result (Serve c p tcp udp h en) = Returns (Some udp_conn_must_not_be_nil)"
  shows "cfg (Serve c p tcp udp h en) = c"
proof (cases "tcp = nil_iface \<or> udp = nil_iface")
  case True
  then show ?thesis by (simp add: cfg_Serve)
next
  case False
  then have S: "Serve c p tcp udp h en =
       run_group (Merge c Serve_defaults) (Serve_task (Merge c Serve_defaults) tcp udp en)
         (Go_calls (Merge c Serve_defaults)) p h"
    by (simp add: Serve_run_group)
  from assms have False unfolding S
    by (auto dest!: run_group_returned_error dest: Serve_task_error)
  then show ?thesis ..
qed

theorem Serve_config_error_leaves_config_witness:
  "result (Serve Server_zero False live_ptr nil_iface False env_quiet)
     = Returns (Some udp_conn_must_not_be_nil)
   \<and> cfg (Serve Server_zero False live_ptr nil_iface False env_quiet) = Server_zero"
proof -
  have r: "result (Serve Server_zero False live_ptr nil_iface False env_quiet)
     = Returns (Some udp_conn_must_not_be_nil)"
    by (simp add: Serve_def)
  from Serve_config_error_leaves_config [OF disjI2 [OF r]] r show ?thesis by simp
qed

end
